theory Spec2Isabelle
  imports Complex_Main "HOL-Library.AList"
begin

section \<open>A GitHub search crawler: the model\<close>

text \<open>
  The crawler of \<^verbatim>\<open>src/crawlers.py\<close> reads a parameter document, validates it, sends one
  search request, extracts items from the answer and writes them to a JSON file. The model
  follows the source function by function. What the source takes from outside is explicit:
  \<^item> the network, the HTML parser and \<^verbatim>\<open>urllib.parse.urljoin\<close> are fields of an
    environment record;
  \<^item> the number drawn by \<^verbatim>\<open>random.choice\<close> is an argument;
  \<^item> the file system and the sequence of requests and task creations are a state that every
    effectful function takes and returns;
  \<^item> an exception is a value of the type \<open>error\<close>.

  A Python \<^verbatim>\<open>str\<close> is a \<open>string\<close> whose characters are the code points of the text;
  the model covers the code points below 256.
\<close>

subsection \<open>Python strings\<close>

text \<open>\<^verbatim>\<open>str.isspace\<close> on one character, for the code points below 256.\<close>

definition py_isspace :: "char \<Rightarrow> bool" where
  "py_isspace c = ((of_char c :: nat) \<in> {9, 10, 11, 12, 13, 28, 29, 30, 31, 32, 133, 160})"

text \<open>\<^verbatim>\<open>str.strip()\<close> with no argument.\<close>

definition py_strip :: "string \<Rightarrow> string" where
  "py_strip s = rev (dropWhile py_isspace (rev (dropWhile py_isspace s)))"

text \<open>\<^verbatim>\<open>str.lower()\<close>: the letters A to Z, and the upper-case letters of Latin-1.\<close>

definition lower_char :: "char \<Rightarrow> char" where
  "lower_char c =
     (let n = (of_char c :: nat)
      in if (65 \<le> n \<and> n \<le> 90) \<or> (192 \<le> n \<and> n \<le> 222 \<and> n \<noteq> 215) then char_of (n + 32) else c)"

definition py_lower :: "string \<Rightarrow> string" where
  "py_lower s = map lower_char s"

text \<open>\<^verbatim>\<open>sep.join(xs)\<close>.\<close>

fun py_join :: "string \<Rightarrow> string list \<Rightarrow> string" where
  "py_join sep [] = []"
| "py_join sep [x] = x"
| "py_join sep (x # y # ys) = x @ sep @ py_join sep (y # ys)"

text \<open>\<^verbatim>\<open>s.split(sep)\<close> for a separator of one character, as at its call site.\<close>

fun py_split :: "char \<Rightarrow> string \<Rightarrow> string list" where
  "py_split sep [] = [[]]"
| "py_split sep (c # cs) =
     (if c = sep then [] # py_split sep cs
      else (case py_split sep cs of [] \<Rightarrow> [[c]] | w # ws \<Rightarrow> (c # w) # ws))"

text \<open>\<^verbatim>\<open>s.replace(old, new)\<close> for an \<^verbatim>\<open>old\<close> of one character, as at both call sites.\<close>

definition py_replace :: "char \<Rightarrow> string \<Rightarrow> string \<Rightarrow> string" where
  "py_replace old new s = concat (map (\<lambda>c. if c = old then new else [c]) s)"

text \<open>\<^verbatim>\<open>needle in hay\<close> on two strings.\<close>

fun str_contains :: "string \<Rightarrow> string \<Rightarrow> bool" where
  "str_contains needle [] = (needle = [])"
| "str_contains needle (c # cs) =
     (take (length needle) (c # cs) = needle \<or> str_contains needle cs)"

text \<open>The maximal runs of characters that are not white space (the regular expression
  \<^verbatim>\<open>\S+\<close>, by which the HTML parser cuts a multi-valued attribute).\<close>

fun whitespace_split :: "string \<Rightarrow> string list" where
  "whitespace_split [] = []"
| "whitespace_split (c # cs) =
     (if py_isspace c then whitespace_split cs
      else (case cs of
              [] \<Rightarrow> [[c]]
            | d # _ \<Rightarrow>
                if py_isspace d then [c] # whitespace_split cs
                else (case whitespace_split cs of [] \<Rightarrow> [[c]] | w # ws \<Rightarrow> (c # w) # ws)))"

subsection \<open>Exceptions\<close>

text \<open>The exceptions of \<^verbatim>\<open>src/exceptions.py\<close>, of \<^verbatim>\<open>jsonschema\<close> and of Python that the
  modelled code can raise. \<open>RequestProcessError\<close> carries the status of its message
  \<^verbatim>\<open>Bad response status: <status>\<close>, \<open>InvalidSearchType\<close> the rejected value.\<close>

datatype error =
    RequestProcessError int
  | InvalidSearchType string
  | ValidationError
  | FileNotFoundError
  | PermissionError
  | IsADirectoryError
  | NotADirectoryError
  | AttributeError
  | KeyError
  | TypeError
  | ValueError

subsection \<open>Settings\<close>

definition PARAMS_FILE_PATH :: string where
  "PARAMS_FILE_PATH = ''resources/parameters.json''"

definition OUTPUT_FILE_PATH :: string where
  "OUTPUT_FILE_PATH = ''resources/output.json''"

definition SUPPORTED_GITHUB_TYPES :: "string list" where
  "SUPPORTED_GITHUB_TYPES = [''Repositories'', ''Issues'', ''Wikis'']"

definition HOST :: string where
  "HOST = ''https://github.com''"

subsection \<open>The parameter document and its schema\<close>

text \<open>What \<^verbatim>\<open>json.load\<close> returns. An object is the list of its members; a key is looked up
  with \<open>map_of\<close>.\<close>

datatype json = JNull | JBool bool | JInt int | JFloat real | JStr string
  | JArr "json list" | JObj "(string \<times> json) list"

text \<open>A schema with the keywords that \<^verbatim>\<open>PARAMS_SCHEMA\<close> uses: \<^verbatim>\<open>type\<close>,
  \<^verbatim>\<open>properties\<close>, \<^verbatim>\<open>items\<close>, \<^verbatim>\<open>minItems\<close> and \<^verbatim>\<open>required\<close>.\<close>

datatype jtype = TObject | TArray | TString

datatype schema = Schema (s_type: "jtype option") (s_properties: "(string \<times> schema) list")
  (s_items: "schema option") (s_minItems: "nat option") (s_required: "string list")

fun is_type :: "jtype \<Rightarrow> json \<Rightarrow> bool" where
  "is_type TObject (JObj kvs) = True"
| "is_type TArray (JArr xs) = True"
| "is_type TString (JStr s) = True"
| "is_type t v = False"

text \<open>\<^verbatim>\<open>jsonschema\<close>'s reading of the five keywords: \<^verbatim>\<open>properties\<close> and
  \<^verbatim>\<open>required\<close> constrain objects only, \<^verbatim>\<open>items\<close> and \<^verbatim>\<open>minItems\<close> arrays only,
  and a property that is absent is not checked.\<close>

fun is_valid :: "schema \<Rightarrow> json \<Rightarrow> bool" where
  "is_valid (Schema ty props items minI req) inst =
     ((case ty of None \<Rightarrow> True | Some t \<Rightarrow> is_type t inst) \<and>
      (case inst of
         JObj kvs \<Rightarrow>
           list_all (\<lambda>(k, s). case map_of kvs k of None \<Rightarrow> True | Some v \<Rightarrow> is_valid s v) props \<and>
           list_all (\<lambda>k. map_of kvs k \<noteq> None) req
       | JArr xs \<Rightarrow>
           (case items of None \<Rightarrow> True | Some s \<Rightarrow> list_all (is_valid s) xs) \<and>
           (case minI of None \<Rightarrow> True | Some n \<Rightarrow> n \<le> length xs)
       | _ \<Rightarrow> True))"

definition PARAMS_SCHEMA :: schema where
  "PARAMS_SCHEMA = Schema (Some TObject)
     [(''keywords'',
         Schema (Some TArray) [] (Some (Schema (Some TString) [] None None [])) (Some 1) []),
      (''proxies'',
         Schema (Some TArray) [] (Some (Schema (Some TString) [] None None [])) None []),
      (''type'', Schema (Some TString) [] None None [])]
     None None [''keywords'', ''type'']"

text \<open>\<^verbatim>\<open>validate(instance, schema)\<close> raises \<^verbatim>\<open>ValidationError\<close> on an instance that
  does not conform.\<close>

definition validate :: "json \<Rightarrow> schema \<Rightarrow> error + unit" where
  "validate inst sch = (if is_valid sch inst then Inr () else Inl ValidationError)"

text \<open>\<^verbatim>\<open>params[key]\<close>.\<close>

fun json_getitem :: "json \<Rightarrow> string \<Rightarrow> error + json" where
  "json_getitem (JObj kvs) k = (case map_of kvs k of None \<Rightarrow> Inl KeyError | Some v \<Rightarrow> Inr v)"
| "json_getitem v k = Inl TypeError"

text \<open>\<^verbatim>\<open>GithubSearchCrawler.validate_params\<close>: the schema first, then the supported types.
  The rejected value is a string wherever the schema has accepted the document.\<close>

definition validate_params :: "json \<Rightarrow> error + unit" where
  "validate_params params =
     (case validate params PARAMS_SCHEMA of
        Inl e \<Rightarrow> Inl e
      | Inr _ \<Rightarrow>
          (case json_getitem params ''type'' of
             Inl e \<Rightarrow> Inl e
           | Inr t \<Rightarrow>
               if t \<notin> set (map JStr SUPPORTED_GITHUB_TYPES)
               then Inl (InvalidSearchType (case t of JStr s \<Rightarrow> s | _ \<Rightarrow> []))
               else Inr ()))"

subsection \<open>Percent-encoding (\<^verbatim>\<open>urllib.parse\<close>)\<close>

definition hex_upper :: "nat \<Rightarrow> char" where
  "hex_upper n = ''0123456789ABCDEF'' ! (n mod 16)"

text \<open>The UTF-8 bytes of a string of code points below 256.\<close>

definition utf8_encode :: "string \<Rightarrow> string" where
  "utf8_encode s =
     concat (map (\<lambda>c. let n = (of_char c :: nat)
                       in if n < 128 then [c] else [char_of (192 + n div 64), char_of (128 + n mod 64)]) s)"

definition always_safe :: string where
  "always_safe = ''ABCDEFGHIJKLMNOPQRSTUVWXYZabcdefghijklmnopqrstuvwxyz0123456789_.-~''"

text \<open>\<^verbatim>\<open>quote_from_bytes\<close>: a byte that is always safe, or an ASCII character of
  \<^verbatim>\<open>safe\<close>, stays; any other byte becomes \<^verbatim>\<open>%XX\<close>.\<close>

definition quote_byte :: "string \<Rightarrow> char \<Rightarrow> string" where
  "quote_byte safe b =
     (if b \<in> set always_safe \<or> (b \<in> set safe \<and> (of_char b :: nat) < 128) then [b]
      else [CHR ''%'', hex_upper ((of_char b :: nat) div 16), hex_upper (of_char b)])"

definition quote_from_bytes :: "string \<Rightarrow> string \<Rightarrow> string" where
  "quote_from_bytes bs safe = concat (map (quote_byte safe) bs)"

definition quote :: "string \<Rightarrow> string \<Rightarrow> string" where
  "quote s safe = (if s = [] then s else quote_from_bytes (utf8_encode s) safe)"

definition quote_plus :: "string \<Rightarrow> string \<Rightarrow> string" where
  "quote_plus s safe =
     (if CHR '' '' \<notin> set s then quote s safe
      else py_replace (CHR '' '') ''+'' (quote s (safe @ '' '')))"

text \<open>\<^verbatim>\<open>urlencode(query, safe=safe)\<close> on a dictionary of strings.\<close>

definition urlencode :: "(string \<times> string) list \<Rightarrow> string \<Rightarrow> string" where
  "urlencode query safe =
     py_join ''&'' (map (\<lambda>(k, v). quote_plus k safe @ ''='' @ quote_plus v safe) query)"

subsection \<open>The crawler, its environment and the state outside it\<close>

record response =
  resp_status :: int
  resp_text :: string

text \<open>A parsed document, as \<^verbatim>\<open>bs4\<close> holds it: a tag has a name, attributes and contents,
  and a piece of text is a \<^verbatim>\<open>NavigableString\<close>. An attribute holds the text written in
  the page; an attribute that the parser keeps as a list of words is cut into its words
  where it is matched.\<close>

datatype node =
    Tag (tag_name: string) (tag_attrs: "(string \<times> string) list") (tag_contents: "node list")
  | NavigableString string

text \<open>The collaborators: \<^verbatim>\<open>urljoin(base, url)\<close>, the answer of the server to a GET of a
  URL through a proxy, and the contents of the documents that the parser builds with
  \<^verbatim>\<open>parse_only=SoupStrainer('a')\<close> and without it.\<close>

record env =
  urljoin :: "string \<Rightarrow> string \<Rightarrow> string"
  http_get :: "string \<Rightarrow> string option \<Rightarrow> response"
  BeautifulSoup_anchors :: "string \<Rightarrow> node list"
  BeautifulSoup :: "string \<Rightarrow> node list"

text \<open>The values that an item is made of.\<close>

datatype pyobj = PyStr string | PyList "pyobj list" | PyDict "(string \<times> pyobj) list"

record GithubSearchItem =
  url :: string
  extras :: pyobj

text \<open>What the crawler does to the world: a request sent, a task created.\<close>

datatype event = Request string "string option" | CreateTask

text \<open>A path names a regular file with its content or a directory; the flag says that the
  process may write to it. The directory of a path without a slash is the empty path.\<close>

datatype fs_entry = RegularFile string bool | Directory bool

type_synonym filesystem = "string \<Rightarrow> fs_entry option"

record world =
  fs :: filesystem
  trace :: "event list"

record client_session =
  closed :: bool

record crawler =
  self_keywords :: "string list"
  self_type :: string
  self_proxies :: "string list"
  self_items :: "pyobj list"
  self_session :: "client_session option"



text \<open>\<^verbatim>\<open>GithubSearchCrawler.search_url\<close>.\<close>

definition search_url :: "env \<Rightarrow> crawler \<Rightarrow> string" where
  "search_url e c =
     (let query_params = [(''q'', py_join ''+'' (self_keywords c)),
                          (''type'', py_lower (self_type c))];
          query = urlencode query_params ''+''
      in urljoin e HOST (''search?'' @ query))"

text \<open>\<^verbatim>\<open>random.choice(seq)\<close> is \<^verbatim>\<open>seq[self._randbelow(len(seq))]\<close>; \<open>r\<close> is the number
  that \<^verbatim>\<open>_randbelow\<close> draws, each number below the length with the same probability.\<close>

definition random_choice :: "'a list \<Rightarrow> nat \<Rightarrow> 'a" where
  "random_choice seq r = seq ! r"

text \<open>\<^verbatim>\<open>GithubSearchCrawler.proxy\<close>.\<close>

definition proxy :: "crawler \<Rightarrow> nat \<Rightarrow> string option" where
  "proxy c r =
     (if self_proxies c \<noteq> [] then Some (''https://'' @ random_choice (self_proxies c) r)
      else None)"

text \<open>\<^verbatim>\<open>GithubSearchCrawler.setup\<close>: a new \<^verbatim>\<open>aiohttp.ClientSession\<close> is open.\<close>

definition setup_crawler :: "crawler \<Rightarrow> crawler" where
  "setup_crawler c = c\<lparr>self_session := Some \<lparr>closed = False\<rparr>\<rparr>"

text \<open>\<^verbatim>\<open>ClientSession.close\<close>.\<close>

definition session_close :: "client_session \<Rightarrow> client_session" where
  "session_close s = s\<lparr>closed := True\<rparr>"

text \<open>\<^verbatim>\<open>GithubSearchCrawler.close\<close>. Without a session, \<^verbatim>\<open>None.closed\<close> raises.\<close>

definition close :: "crawler \<Rightarrow> error + crawler" where
  "close c =
     (case self_session c of
        None \<Rightarrow> Inl AttributeError
      | Some s \<Rightarrow>
          if \<not> closed s then Inr (c\<lparr>self_session := Some (session_close s)\<rparr>) else Inr c)"

subsection \<open>Items\<close>

text \<open>The constructor of the dataclass with its \<^verbatim>\<open>__post_init__\<close>, and \<^verbatim>\<open>to_dict\<close>.\<close>

definition new_item :: "env \<Rightarrow> string \<Rightarrow> GithubSearchItem" where
  "new_item e u = \<lparr>url = urljoin e HOST u, extras = PyDict []\<rparr>"

definition to_dict :: "GithubSearchItem \<Rightarrow> pyobj" where
  "to_dict item = PyDict [(''url'', PyStr (url item)), (''extras'', extras item)]"

subsection \<open>Searching a document\<close>

text \<open>\<^verbatim>\<open>tag[key]\<close>.\<close>

fun tag_getitem :: "node \<Rightarrow> string \<Rightarrow> error + string" where
  "tag_getitem (Tag n as cs) k = (case map_of as k of None \<Rightarrow> Inl KeyError | Some v \<Rightarrow> Inr v)"
| "tag_getitem (NavigableString s) k = Inl TypeError"

text \<open>\<^verbatim>\<open>.text\<close>: the strings below a node, in the order of the document.\<close>

fun get_text :: "node \<Rightarrow> string" where
  "get_text (NavigableString s) = s"
| "get_text (Tag n as cs) = concat (map get_text cs)"

text \<open>The nodes below the contents of a document, in the order of the document.\<close>

fun descendants :: "node \<Rightarrow> node list" where
  "descendants (NavigableString s) = []"
| "descendants (Tag n as cs) = concat (map (\<lambda>c. c # descendants c) cs)"

definition soup_descendants :: "node list \<Rightarrow> node list" where
  "soup_descendants soup = concat (map (\<lambda>c. c # descendants c) soup)"

text \<open>What \<^verbatim>\<open>find_all\<close> is given for an attribute: a string to match, or \<^verbatim>\<open>True\<close>
  for an attribute that is present.\<close>

datatype attr_pattern = Equals string | Present

text \<open>The attributes that the HTML parser keeps as lists of words, among the two that the
  crawler matches: \<^verbatim>\<open>class\<close> on every tag, \<^verbatim>\<open>rel\<close> on links.\<close>

definition cdata_list_attribute :: "string \<Rightarrow> string \<Rightarrow> bool" where
  "cdata_list_attribute name k =
     (k = ''class'' \<or> (k = ''rel'' \<and> name \<in> {''a'', ''link'', ''area''}))"

text \<open>A list of words matches a string when one of its words is the string, or the words
  joined by a space are.\<close>

fun matches_attr :: "node \<Rightarrow> string \<times> attr_pattern \<Rightarrow> bool" where
  "matches_attr (NavigableString s) p = False"
| "matches_attr (Tag n as cs) (k, Present) = (map_of as k \<noteq> None)"
| "matches_attr (Tag n as cs) (k, Equals v) =
     (case map_of as k of
        None \<Rightarrow> False
      | Some raw \<Rightarrow>
          if cdata_list_attribute n k
          then v \<in> set (whitespace_split raw) \<or> py_join '' '' (whitespace_split raw) = v
          else raw = v)"

definition find_all :: "(string \<times> attr_pattern) list \<Rightarrow> node list \<Rightarrow> node list" where
  "find_all attrs soup = filter (\<lambda>t. list_all (matches_attr t) attrs) (soup_descendants soup)"

definition find :: "(string \<times> attr_pattern) list \<Rightarrow> node list \<Rightarrow> node option" where
  "find attrs soup = (case find_all attrs soup of [] \<Rightarrow> None | t # _ \<Rightarrow> Some t)"

subsection \<open>The two extractors\<close>

text \<open>\<^verbatim>\<open>match_condition\<close> of \<^verbatim>\<open>parse_data_hydro_click_elements\<close>. A string of the
  document has no \<^verbatim>\<open>has_attr\<close>.\<close>

fun match_condition :: "node \<Rightarrow> error + bool" where
  "match_condition (NavigableString s) = Inl AttributeError"
| "match_condition (Tag n as cs) =
     Inr (map_of as ''href'' \<noteq> None \<and>
          (case map_of as ''data-hydro-click'' of
             None \<Rightarrow> False
           | Some v \<Rightarrow> str_contains ''search_result.click'' v))"

text \<open>The comprehension \<^verbatim>\<open>[a for a in data if match_condition(a)]\<close> over the contents of
  the document: the first exception ends it.\<close>

fun matching_links :: "node list \<Rightarrow> error + node list" where
  "matching_links [] = Inr []"
| "matching_links (a # as) =
     (case match_condition a of
        Inl e \<Rightarrow> Inl e
      | Inr b \<Rightarrow>
          (case matching_links as of
             Inl e \<Rightarrow> Inl e
           | Inr ls \<Rightarrow> Inr (if b then a # ls else ls)))"

text \<open>The loop over the links of \<^verbatim>\<open>parse_data_hydro_click_elements\<close>.\<close>

fun append_links :: "env \<Rightarrow> node list \<Rightarrow> crawler \<Rightarrow> error option \<times> crawler" where
  "append_links e [] c = (None, c)"
| "append_links e (link # links) c =
     (case tag_getitem link ''href'' of
        Inl err \<Rightarrow> (Some err, c)
      | Inr h \<Rightarrow>
          append_links e links (c\<lparr>self_items := self_items c @ [to_dict (new_item e h)]\<rparr>))"

definition parse_data_hydro_click_elements ::
  "env \<Rightarrow> node list \<Rightarrow> crawler \<times> world \<Rightarrow> error option \<times> crawler \<times> world" where
  "parse_data_hydro_click_elements e data cw =
     (case cw of (c, w) \<Rightarrow>
        (case matching_links data of
           Inl err \<Rightarrow> (Some err, c, w)
         | Inr links \<Rightarrow> (case append_links e links c of (r, c') \<Rightarrow> (r, c', w))))"

text \<open>\<^verbatim>\<open>dict(pairs)\<close> on a list of lists of strings: every list has two elements, a key
  set twice keeps its place and takes the later value.\<close>

fun py_dict :: "string list list \<Rightarrow> (string \<times> string) list \<Rightarrow> error + (string \<times> string) list" where
  "py_dict [] d = Inr d"
| "py_dict (p # ps) d =
     (case p of
        [k, v] \<Rightarrow> py_dict ps (AList.update k v d)
      | _ \<Rightarrow> Inl ValueError)"

text \<open>\<^verbatim>\<open>GithubSearchCrawler.get_extras\<close>.\<close>

definition get_extras :: "env \<Rightarrow> string \<Rightarrow> error + pyobj" where
  "get_extras e page =
     (let soup = BeautifulSoup e page
      in case find [(''rel'', Equals ''author'')] soup of
           None \<Rightarrow> Inl AttributeError
         | Some author \<Rightarrow>
             (let owner = py_strip (get_text author);
                  language_elements =
                    filter (\<lambda>lang. case tag_getitem lang ''data-ga-click'' of
                                      Inl err \<Rightarrow> False
                                    | Inr v \<Rightarrow> str_contains ''stats'' v)
                      (find_all [(''data-ga-click'', Present)] soup)
              in case py_dict
                        (map (\<lambda>stat. py_split (CHR 0x0A)
                                        (py_replace (CHR ''%'') [] (py_strip (get_text stat))))
                           language_elements) [] of
                   Inl err \<Rightarrow> Inl err
                 | Inr language_stats \<Rightarrow>
                     Inr (PyDict [(''owner'', PyStr owner),
                                  (''language_stats'',
                                     PyDict (map (\<lambda>(k, v). (k, PyStr v)) language_stats))])))"

text \<open>The loop of \<^verbatim>\<open>parse_repositories\<close>: for one link after the other, the request for
  its page, the extras, the item appended.\<close>

fun fetch_links :: "env \<Rightarrow> node list \<Rightarrow> crawler \<times> world \<Rightarrow> error option \<times> crawler \<times> world" where
  "fetch_links e [] cw = (None, cw)"
| "fetch_links e (a # links) cw =
     (case cw of (c, w) \<Rightarrow>
        (case tag_getitem a ''href'' of
           Inl err \<Rightarrow> (Some err, c, w)
         | Inr h \<Rightarrow>
             (let item = new_item e h;
                  w' = w\<lparr>trace := trace w @ [Request (url item) None]\<rparr>;
                  page = resp_text (http_get e (url item) None)
              in case get_extras e page of
                   Inl err \<Rightarrow> (Some err, c, w')
                 | Inr ex \<Rightarrow>
                     fetch_links e links
                       (c\<lparr>self_items := self_items c @ [to_dict (item\<lparr>extras := ex\<rparr>)]\<rparr>, w'))))"

text \<open>\<^verbatim>\<open>GithubSearchCrawler.parse_repositories\<close>.\<close>

definition parse_repositories ::
  "env \<Rightarrow> node list \<Rightarrow> crawler \<times> world \<Rightarrow> error option \<times> crawler \<times> world" where
  "parse_repositories e data cw =
     (let links = find_all [(''class'', Equals ''v-align-middle''), (''href'', Present)] data
      in fetch_links e links cw)"

subsection \<open>The output file\<close>

text \<open>\<^verbatim>\<open>os.path.exists\<close> and \<^verbatim>\<open>os.path.dirname\<close>.\<close>

definition os_path_exists :: "filesystem \<Rightarrow> string \<Rightarrow> bool" where
  "os_path_exists f p = (f p \<noteq> None)"

definition dirname :: "string \<Rightarrow> string" where
  "dirname p =
     (let head = rev (dropWhile (\<lambda>c. c \<noteq> CHR ''/'') (rev p))
      in if head \<noteq> [] \<and> \<not> list_all (\<lambda>c. c = CHR ''/'') head
         then rev (dropWhile (\<lambda>c. c = CHR ''/'') (rev head))
         else head)"

text \<open>\<^verbatim>\<open>_resolve_default_path\<close>: an empty or absent \<^verbatim>\<open>new\<close> selects the default.\<close>

definition resolve_default_path :: "filesystem \<Rightarrow> string \<Rightarrow> string option \<Rightarrow> error + string" where
  "resolve_default_path f dflt new =
     (case new of
        Some n \<Rightarrow>
          if n \<noteq> [] then (if \<not> os_path_exists f n then Inl FileNotFoundError else Inr n)
          else (if \<not> os_path_exists f dflt then Inl FileNotFoundError else Inr dflt)
      | None \<Rightarrow> if \<not> os_path_exists f dflt then Inl FileNotFoundError else Inr dflt)"

text \<open>Opening a path in the mode \<^verbatim>\<open>w+\<close>: a file that exists is emptied, a file that does
  not is created in its directory.\<close>

definition open_w :: "filesystem \<Rightarrow> string \<Rightarrow> error + filesystem" where
  "open_w f p =
     (case f p of
        Some (RegularFile content writable) \<Rightarrow>
          if writable then Inr (f(p \<mapsto> RegularFile [] True)) else Inl PermissionError
      | Some (Directory writable) \<Rightarrow> Inl IsADirectoryError
      | None \<Rightarrow>
          (case f (dirname p) of
             Some (Directory writable) \<Rightarrow>
               if writable then Inr (f(p \<mapsto> RegularFile [] True)) else Inl PermissionError
           | Some (RegularFile content writable) \<Rightarrow> Inl NotADirectoryError
           | None \<Rightarrow> Inl FileNotFoundError))"

text \<open>Writing to the file that has been opened, at its end.\<close>

definition file_write :: "filesystem \<Rightarrow> string \<Rightarrow> string \<Rightarrow> filesystem" where
  "file_write f p s =
     (case f p of
        Some (RegularFile content writable) \<Rightarrow> f(p \<mapsto> RegularFile (content @ s) writable)
      | _ \<Rightarrow> f)"

text \<open>\<^verbatim>\<open>json.dumps(obj, indent=4)\<close>: strings are escaped to ASCII, a list or dictionary
  that is not empty has one member on each line, four spaces deeper than its brackets.\<close>

definition hex_lower :: "nat \<Rightarrow> char" where
  "hex_lower n = ''0123456789abcdef'' ! (n mod 16)"

definition json_escape_char :: "char \<Rightarrow> string" where
  "json_escape_char c =
     (let n = (of_char c :: nat)
      in if n = 0x22 then [CHR 0x5C, CHR 0x22]
         else if n = 0x5C then [CHR 0x5C, CHR 0x5C]
         else if n = 0x0A then [CHR 0x5C, CHR ''n'']
         else if n = 0x0D then [CHR 0x5C, CHR ''r'']
         else if n = 0x09 then [CHR 0x5C, CHR ''t'']
         else if n = 0x08 then [CHR 0x5C, CHR ''b'']
         else if n = 0x0C then [CHR 0x5C, CHR ''f'']
         else if 0x20 \<le> n \<and> n \<le> 0x7E then [c]
         else [CHR 0x5C, CHR ''u'', CHR ''0'', CHR ''0'', hex_lower (n div 16), hex_lower n])"

definition encode_basestring_ascii :: "string \<Rightarrow> string" where
  "encode_basestring_ascii s = [CHR 0x22] @ concat (map json_escape_char s) @ [CHR 0x22]"

definition newline_indent :: "nat \<Rightarrow> string" where
  "newline_indent level = CHR 0x0A # replicate (4 * level) (CHR '' '')"

fun json_encode :: "nat \<Rightarrow> pyobj \<Rightarrow> string" where
  "json_encode level (PyStr s) = encode_basestring_ascii s"
| "json_encode level (PyList xs) =
     (if xs = [] then ''[]''
      else ''['' @ newline_indent (level + 1)
           @ py_join ('','' @ newline_indent (level + 1)) (map (json_encode (level + 1)) xs)
           @ newline_indent level @ '']'')"
| "json_encode level (PyDict kvs) =
     (if kvs = [] then ''{}''
      else ''{'' @ newline_indent (level + 1)
           @ py_join ('','' @ newline_indent (level + 1))
               (map (\<lambda>(k, v). encode_basestring_ascii k @ '': '' @ json_encode (level + 1) v) kvs)
           @ newline_indent level @ ''}'')"

definition json_dumps :: "pyobj \<Rightarrow> string" where
  "json_dumps obj = json_encode 0 obj"

text \<open>\<^verbatim>\<open>write_items\<close> of \<^verbatim>\<open>src/utils.py\<close>.\<close>

definition write_items :: "pyobj list \<Rightarrow> string option \<Rightarrow> world \<Rightarrow> error option \<times> world" where
  "write_items items file_path w =
     (case resolve_default_path (fs w) OUTPUT_FILE_PATH file_path of
        Inl err \<Rightarrow> (Some err, w)
      | Inr path \<Rightarrow>
          (case open_w (fs w) path of
             Inl err \<Rightarrow> (Some err, w)
           | Inr f \<Rightarrow> (None, w\<lparr>fs := file_write f path (json_dumps (PyList items))\<rparr>)))"

subsection \<open>The run\<close>

text \<open>The table \<^verbatim>\<open>coro\<close> of \<^verbatim>\<open>process\<close>.\<close>

definition coro ::
  "string \<Rightarrow> (env \<Rightarrow> node list \<Rightarrow> crawler \<times> world \<Rightarrow> error option \<times> crawler \<times> world) option" where
  "coro t =
     (if t = ''Repositories'' then Some parse_repositories
      else if t = ''Issues'' then Some parse_data_hydro_click_elements
      else if t = ''Wikis'' then Some parse_data_hydro_click_elements
      else None)"

text \<open>\<^verbatim>\<open>GithubSearchCrawler.process\<close>. One task is created, for the extractor of the search
  type, and awaited; the crawler is closed and the items are written after it.\<close>

definition process :: "env \<Rightarrow> nat \<Rightarrow> crawler \<Rightarrow> world \<Rightarrow> error option \<times> crawler \<times> world" where
  "process e r c w =
     (let c1 = setup_crawler c;
          u = search_url e c1;
          p = proxy c1 r;
          w1 = w\<lparr>trace := trace w @ [Request u p]\<rparr>;
          response = http_get e u p
      in if resp_status response = 200
         then (let soup = BeautifulSoup_anchors e (resp_text response)
               in case coro (self_type c1) of
                    None \<Rightarrow> (Some KeyError, c1, w1)
                  | Some parser \<Rightarrow>
                      (case parser e soup (c1, w1\<lparr>trace := trace w1 @ [CreateTask]\<rparr>) of
                         (Some err, c2, w2) \<Rightarrow> (Some err, c2, w2)
                       | (None, c2, w2) \<Rightarrow>
                           (case close c2 of
                              Inl err \<Rightarrow> (Some err, c2, w2)
                            | Inr c3 \<Rightarrow>
                                (case write_items (self_items c3) None w2 of
                                   (res, w3) \<Rightarrow> (res, c3, w3)))))
         else (Some (RequestProcessError (resp_status response)), c1, w1))"


subsection \<open>Examples\<close>

definition example_urljoin :: "string \<Rightarrow> string \<Rightarrow> string" where
  "example_urljoin base u = (if take 1 u = ''/'' then base @ u else base @ ''/'' @ u)"

text \<open>Two results of a search for repositories, and the pages of the two repositories: the
  author, one element for each language, and links that are neither.\<close>

definition repo_link_alice :: node where
  "repo_link_alice = Tag ''a'' [(''class'', ''v-align-middle''), (''href'', ''/alice/repo'')]
                       [NavigableString ''alice/repo'']"

definition repo_link_bob :: node where
  "repo_link_bob = Tag ''a'' [(''href'', ''/bob/tool''), (''class'', ''v-align-middle text-bold'')]
                     [NavigableString ''bob/tool'']"

definition alice_author :: node where
  "alice_author = Tag ''a'' [(''rel'', ''author''), (''href'', ''/alice'')]
                    [NavigableString [CHR 0x0A, CHR '' '', CHR ''a'', CHR ''l'', CHR ''i'', CHR ''c'',
                                      CHR ''e'', CHR 0x0A]]"

definition alice_go :: node where
  "alice_go = Tag ''a'' [(''href'', ''/alice/repo/search?l=go''),
                         (''data-ga-click'', ''Repository, language stats search click'')]
                [Tag ''span'' [(''class'', ''lang'')] [NavigableString ''Go''],
                 NavigableString [CHR 0x0A],
                 Tag ''span'' [(''class'', ''percent'')] [NavigableString ''80%'']]"

definition alice_python :: node where
  "alice_python = Tag ''a'' [(''href'', ''/alice/repo/search?l=python''),
                             (''data-ga-click'', ''Repository, language stats search click'')]
                    [NavigableString [CHR ''P'', CHR ''y'', CHR ''t'', CHR ''h'', CHR ''o'', CHR ''n'',
                                      CHR 0x0A, CHR ''2'', CHR ''0'', CHR ''%'']]"

definition alice_page :: "node list" where
  "alice_page =
     [Tag ''html'' []
        [Tag ''body'' []
           [Tag ''a'' [(''data-ga-click'', ''Header, click, Nav menu'')] [NavigableString ''Explore''],
            Tag ''span'' [(''class'', ''author'')] [alice_author],
            alice_go,
            alice_python]]]"

definition bob_page :: "node list" where
  "bob_page =
     [Tag ''div'' []
        [Tag ''a'' [(''rel'', ''nofollow author''), (''href'', ''/bob'')] [NavigableString ''bob''],
         Tag ''a'' [(''data-ga-click'', ''Repository, language stats search click'')]
           [NavigableString [CHR ''C'', CHR 0x0A, CHR ''1'', CHR ''0'', CHR ''0'', CHR ''%'']]]]"

text \<open>An environment: a stand-in for \<^verbatim>\<open>urljoin\<close> that is right for the host and a path,
  a server that answers the search with the given status and knows the two repositories,
  and a parser that returns the given anchors for the search page.\<close>

definition example_env :: "int \<Rightarrow> node list \<Rightarrow> env" where
  "example_env st anchors =
     \<lparr>urljoin = example_urljoin,
      http_get = (\<lambda>u p. if u = ''https://github.com/alice/repo''
                         then \<lparr>resp_status = 200, resp_text = ''page of alice/repo''\<rparr>
                         else if u = ''https://github.com/bob/tool''
                         then \<lparr>resp_status = 200, resp_text = ''page of bob/tool''\<rparr>
                         else \<lparr>resp_status = st, resp_text = ''search page''\<rparr>),
      BeautifulSoup_anchors = (\<lambda>t. anchors),
      BeautifulSoup = (\<lambda>t. if t = ''page of alice/repo'' then alice_page
                              else if t = ''page of bob/tool'' then bob_page
                              else [])\<rparr>"


definition example_crawler :: crawler where
  "example_crawler = \<lparr>self_keywords = [''openstack'', ''nova css''], self_type = ''Repositories'',
     self_proxies = [''194.126.37.94:8080'', ''13.78.125.167:8080''], self_items = [],
     self_session = None\<rparr>"

text \<open>A file system with the directory of the output file, and with the output file.\<close>

definition example_fs :: "bool \<Rightarrow> filesystem" where
  "example_fs with_output =
     (if with_output
      then [''resources'' \<mapsto> Directory True, ''resources/output.json'' \<mapsto> RegularFile ''[]'' True]
      else [''resources'' \<mapsto> Directory True])"

definition example_world :: "bool \<Rightarrow> world" where
  "example_world with_output = \<lparr>fs = example_fs with_output, trace = []\<rparr>"


definition anchor_B :: node where
  "anchor_B = Tag ''a'' [(''href'', ''/login'')] [NavigableString ''Sign in'']"


section \<open>Properties\<close>

subsection \<open>Validation of the parameters\<close>

lemma is_valid_string_schema:
  "is_valid (Schema (Some TString) [] None None []) v \<longleftrightarrow> (\<exists>s. v = JStr s)"
  by (cases v) simp_all

lemma is_valid_array_schema:
  "is_valid (Schema (Some TArray) [] (Some (Schema (Some TString) [] None None [])) m []) v \<longleftrightarrow>
     (\<exists>xs. v = JArr xs \<and> list_all (\<lambda>k. \<exists>s. k = JStr s) xs \<and>
           (case m of None \<Rightarrow> True | Some n \<Rightarrow> n \<le> length xs))"
proof (cases v)
  case (JArr xs)
  have "list_all (is_valid (Schema (Some TString) [] None None [])) xs = list_all (\<lambda>k. \<exists>s. k = JStr s) xs"
    using is_valid_string_schema by (simp add: list_all_iff del: is_valid.simps)
  with JArr show ?thesis by simp
qed simp_all

text \<open>The schema in plain terms: an object with an array \<^verbatim>\<open>keywords\<close> of at least one
  string, a string \<^verbatim>\<open>type\<close> and, if present, an array \<^verbatim>\<open>proxies\<close> of strings.\<close>

lemma is_valid_PARAMS_SCHEMA_iff:
  "is_valid PARAMS_SCHEMA params \<longleftrightarrow>
     (\<exists>kvs. params = JObj kvs \<and>
        (\<exists>ks. map_of kvs ''keywords'' = Some (JArr ks) \<and> ks \<noteq> [] \<and> list_all (\<lambda>k. \<exists>s. k = JStr s) ks) \<and>
        (\<exists>t. map_of kvs ''type'' = Some (JStr t)) \<and>
        (case map_of kvs ''proxies'' of
           None \<Rightarrow> True
         | Some v \<Rightarrow> \<exists>ps. v = JArr ps \<and> list_all (\<lambda>p. \<exists>s. p = JStr s) ps))"
proof (cases params)
  case (JObj kvs)
  have "is_valid PARAMS_SCHEMA (JObj kvs) \<longleftrightarrow>
     ((case map_of kvs ''keywords'' of None \<Rightarrow> True
        | Some v \<Rightarrow> is_valid (Schema (Some TArray) [] (Some (Schema (Some TString) [] None None [])) (Some (Suc 0)) []) v) \<and>
      (case map_of kvs ''proxies'' of None \<Rightarrow> True
        | Some v \<Rightarrow> is_valid (Schema (Some TArray) [] (Some (Schema (Some TString) [] None None [])) None []) v) \<and>
      (case map_of kvs ''type'' of None \<Rightarrow> True
        | Some v \<Rightarrow> is_valid (Schema (Some TString) [] None None []) v) \<and>
      map_of kvs ''keywords'' \<noteq> None \<and> map_of kvs ''type'' \<noteq> None)"
    unfolding PARAMS_SCHEMA_def is_valid.simps[of "Some TObject"] by simp
  also have "\<dots> \<longleftrightarrow>
     ((\<exists>ks. map_of kvs ''keywords'' = Some (JArr ks) \<and> ks \<noteq> [] \<and> list_all (\<lambda>k. \<exists>s. k = JStr s) ks) \<and>
        (\<exists>t. map_of kvs ''type'' = Some (JStr t)) \<and>
        (case map_of kvs ''proxies'' of
           None \<Rightarrow> True
         | Some v \<Rightarrow> \<exists>ps. v = JArr ps \<and> list_all (\<lambda>p. \<exists>s. p = JStr s) ps))"
    unfolding is_valid_string_schema is_valid_array_schema
    by (auto split: option.splits simp: Suc_le_eq)
  finally show ?thesis using JObj by simp
qed (simp_all add: PARAMS_SCHEMA_def)

text \<open>
  Claim C2. A document in which \<^verbatim>\<open>keywords\<close> or \<^verbatim>\<open>type\<close> is missing, or in which
  \<^verbatim>\<open>keywords\<close> is the empty array, is rejected with the schema's \<open>ValidationError\<close>.
  Every document that the schema rejects is rejected with \<open>ValidationError\<close>, whatever its
  \<^verbatim>\<open>type\<close>, so the check of the search type comes after the schema. A document that the
  schema accepts has a string as its \<^verbatim>\<open>type\<close>; validation returns when it is one of
  Repositories, Issues and Wikis, and raises \<open>InvalidSearchType\<close> otherwise.
\<close>

theorem validate_params_spec:
  "(isl (json_getitem params ''keywords'') \<or> isl (json_getitem params ''type'') \<or>
      json_getitem params ''keywords'' = Inr (JArr [])
      \<longrightarrow> validate_params params = Inl ValidationError) \<and>
   (\<not> is_valid PARAMS_SCHEMA params \<longrightarrow> validate_params params = Inl ValidationError) \<and>
   (is_valid PARAMS_SCHEMA params \<longrightarrow>
      (\<exists>t. json_getitem params ''type'' = Inr (JStr t) \<and>
           validate_params params =
             (if t \<in> {''Repositories'', ''Issues'', ''Wikis''} then Inr ()
              else Inl (InvalidSearchType t))))"
proof (intro conjI impI)
  assume "isl (json_getitem params ''keywords'') \<or> isl (json_getitem params ''type'') \<or>
      json_getitem params ''keywords'' = Inr (JArr [])"
  then have "\<not> is_valid PARAMS_SCHEMA params"
    unfolding is_valid_PARAMS_SCHEMA_iff by (auto split: option.splits)
  then show "validate_params params = Inl ValidationError"
    by (simp add: validate_params_def validate_def)
next
  assume "\<not> is_valid PARAMS_SCHEMA params"
  then show "validate_params params = Inl ValidationError"
    by (simp add: validate_params_def validate_def)
next
  assume v: "is_valid PARAMS_SCHEMA params"
  then obtain kvs t where "params = JObj kvs" "map_of kvs ''type'' = Some (JStr t)"
    unfolding is_valid_PARAMS_SCHEMA_iff by blast
  with v show "\<exists>t. json_getitem params ''type'' = Inr (JStr t) \<and>
           validate_params params =
             (if t \<in> {''Repositories'', ''Issues'', ''Wikis''} then Inr ()
              else Inl (InvalidSearchType t))"
    by (auto simp: validate_params_def validate_def SUPPORTED_GITHUB_TYPES_def)
qed

text \<open>The theorem at four documents: no keywords, a type that is not a string, a type that is
  not supported, and a valid document.\<close>

theorem validate_params_spec_witness:
  "validate_params (JObj [(''type'', JStr ''Issues'')]) = Inl ValidationError \<and>
   validate_params (JObj [(''keywords'', JArr [JStr ''python'']), (''type'', JInt 3)]) = Inl ValidationError \<and>
   validate_params (JObj [(''keywords'', JArr [JStr ''python'']), (''type'', JStr ''Users'')])
     = Inl (InvalidSearchType ''Users'') \<and>
   validate_params (JObj [(''keywords'', JArr [JStr ''python'']), (''type'', JStr ''Wikis'')]) = Inr ()"
proof -
  have a: "isl (json_getitem (JObj [(''type'', JStr ''Issues'')]) ''keywords'')" by simp
  have b: "\<not> is_valid PARAMS_SCHEMA (JObj [(''keywords'', JArr [JStr ''python'']), (''type'', JInt 3)])"
    by (simp add: PARAMS_SCHEMA_def)
  have c: "is_valid PARAMS_SCHEMA (JObj [(''keywords'', JArr [JStr ''python'']), (''type'', JStr ''Users'')])"
    by (simp add: PARAMS_SCHEMA_def)
  have d: "is_valid PARAMS_SCHEMA (JObj [(''keywords'', JArr [JStr ''python'']), (''type'', JStr ''Wikis'')])"
    by (simp add: PARAMS_SCHEMA_def)
  show ?thesis
    using a validate_params_spec [of "JObj [(''type'', JStr ''Issues'')]"]
      b validate_params_spec [of "JObj [(''keywords'', JArr [JStr ''python'']), (''type'', JInt 3)]"]
      c validate_params_spec [of "JObj [(''keywords'', JArr [JStr ''python'']), (''type'', JStr ''Users'')]"]
      d validate_params_spec [of "JObj [(''keywords'', JArr [JStr ''python'']), (''type'', JStr ''Wikis'')]"]
    by simp
qed

subsection \<open>The search URL\<close>




















subsection \<open>The proxy\<close>








subsection \<open>Closing the session\<close>

text \<open>
  Claim C9. Once the crawler has a session, \<open>close\<close> returns with the session closed, and a
  further \<open>close\<close> returns the same crawler: it changes nothing.
\<close>

theorem close_idempotent:
  assumes "self_session c = Some s"
  shows "\<exists>c1 s1. close c = Inr c1 \<and> self_session c1 = Some s1 \<and> closed s1 \<and> close c1 = Inr c1"
  using assms by (simp add: close_def session_close_def)

text \<open>The theorem at the crawler of the example, after \<open>setup_crawler\<close>.\<close>

theorem close_idempotent_witness:
  "self_session (setup_crawler example_crawler) = Some \<lparr>closed = False\<rparr> \<and>
   (\<exists>c1 s1. close (setup_crawler example_crawler) = Inr c1 \<and> self_session c1 = Some s1 \<and>
      closed s1 \<and> close c1 = Inr c1)"
proof -
  have s: "self_session (setup_crawler example_crawler) = Some \<lparr>closed = False\<rparr>"
    by (simp add: setup_crawler_def)
  show ?thesis using s close_idempotent[OF s] by simp
qed

subsection \<open>The extractor of issues and wikis\<close>







subsection \<open>The extractor of repositories\<close>












text \<open>The loop over the links, when every link has an \<^verbatim>\<open>href\<close> and every page yields its
  extras: the requests are sent and the items appended in the order of the links.\<close>

lemma fetch_links_in_order:
  assumes "\<forall>a \<in> set links. \<exists>h ex. tag_getitem a ''href'' = Inr h \<and>
             get_extras e (resp_text (http_get e (urljoin e HOST h) None)) = Inr ex"
  shows "fetch_links e links (c, w) =
     (None,
      c\<lparr>self_items := self_items c @
          map (\<lambda>a. PyDict [(''url'', PyStr (urljoin e HOST (projr (tag_getitem a ''href'')))),
                            (''extras'',
                               projr (get_extras e (resp_text
                                 (http_get e (urljoin e HOST (projr (tag_getitem a ''href''))) None))))])
            links\<rparr>,
      w\<lparr>trace := trace w @
          map (\<lambda>a. Request (urljoin e HOST (projr (tag_getitem a ''href''))) None) links\<rparr>)"
  using assms
proof (induction links arbitrary: c w)
  case Nil
  then show ?case by simp
next
  case (Cons a links)
  from Cons.prems obtain h ex where a: "tag_getitem a ''href'' = Inr h"
    "get_extras e (resp_text (http_get e (urljoin e HOST h) None)) = Inr ex" by auto
  from Cons.prems have "\<forall>a \<in> set links. \<exists>h ex. tag_getitem a ''href'' = Inr h \<and>
             get_extras e (resp_text (http_get e (urljoin e HOST h) None)) = Inr ex" by simp
  note IH = Cons.IH[OF this]
  show ?case
    by (simp add: a IH new_item_def to_dict_def Let_def)
qed







subsection \<open>Writing the items\<close>

text \<open>The path that \<^verbatim>\<open>write_items\<close> writes to: the given one, or the default when none or
  an empty one is given.\<close>

lemma write_items_cases:
  assumes "path = (case file_path of None \<Rightarrow> OUTPUT_FILE_PATH
                   | Some n \<Rightarrow> if n = [] then OUTPUT_FILE_PATH else n)"
  shows "write_items items file_path w =
     (case fs w path of
        None \<Rightarrow> (Some FileNotFoundError, w)
      | Some (Directory writable) \<Rightarrow> (Some IsADirectoryError, w)
      | Some (RegularFile content writable) \<Rightarrow>
          if writable
          then (None, w\<lparr>fs := (fs w)(path \<mapsto> RegularFile (json_dumps (PyList items)) True)\<rparr>)
          else (Some PermissionError, w))"
  using assms
  by (auto simp: write_items_def resolve_default_path_def os_path_exists_def open_w_def
      file_write_def split: option.splits fs_entry.splits)





text \<open>
  Claim C10. Where the path of the output does not exist, \<^verbatim>\<open>write_items\<close> raises
  \<^verbatim>\<open>FileNotFoundError\<close> and leaves the file system as it was, whatever the state of the
  directory. Where \<^verbatim>\<open>write_items\<close> succeeds, the path named a regular file before, and
  that file now holds the JSON text of the items and nothing else.
\<close>

theorem write_items_needs_existing_file:
  assumes "path = (case file_path of None \<Rightarrow> OUTPUT_FILE_PATH
                   | Some n \<Rightarrow> if n = [] then OUTPUT_FILE_PATH else n)"
  shows "(fs w path = None \<longrightarrow> write_items items file_path w = (Some FileNotFoundError, w)) \<and>
         (fst (write_items items file_path w) = None \<longrightarrow>
            (\<exists>content. fs w path = Some (RegularFile content True)) \<and>
            snd (write_items items file_path w) =
              w\<lparr>fs := (fs w)(path \<mapsto> RegularFile (json_dumps (PyList items)) True)\<rparr>)"
  unfolding write_items_cases[OF assms]
  by (auto split: option.splits fs_entry.splits)

text \<open>The theorem where the directory \<^verbatim>\<open>resources\<close> exists and may be written and the
  output file does not exist, and where the output file exists.\<close>

theorem write_items_needs_existing_file_witness:
  "fs (example_world False) ''resources'' = Some (Directory True) \<and>
   fs (example_world False) ''resources/output.json'' = None \<and>
   write_items [] None (example_world False) = (Some FileNotFoundError, example_world False) \<and>
   fst (write_items [] None (example_world True)) = None \<and>
   snd (write_items [] None (example_world True)) =
     (example_world True)\<lparr>fs := (fs (example_world True))(''resources/output.json'' \<mapsto>
        RegularFile ''[]'' True)\<rparr>"
proof -
  have p: "''resources/output.json'' = (case None :: string option of None \<Rightarrow> OUTPUT_FILE_PATH
                   | Some n \<Rightarrow> if n = [] then OUTPUT_FILE_PATH else n)"
    by (simp add: OUTPUT_FILE_PATH_def)
  have a: "fs (example_world False) ''resources'' = Some (Directory True)"
    and b: "fs (example_world False) ''resources/output.json'' = None"
    by (simp_all add: example_world_def example_fs_def)
  have c: "fst (write_items [] None (example_world True)) = None"
    by (simp add: write_items_def resolve_default_path_def os_path_exists_def open_w_def
        OUTPUT_FILE_PATH_def example_world_def example_fs_def)
  have j: "json_dumps (PyList []) = ''[]''" by code_simp
  show ?thesis
    using a b c write_items_needs_existing_file[OF p, of "example_world False" "[]"]
      write_items_needs_existing_file[OF p, of "example_world True" "[]"]
    by (simp add: j)
qed

subsection \<open>The run\<close>

lemma setup_crawler_fields [simp]:
  "self_type (setup_crawler c) = self_type c"
  "self_items (setup_crawler c) = self_items c"
  "self_session (setup_crawler c) = Some \<lparr>closed = False\<rparr>"
  "search_url e (setup_crawler c) = search_url e c"
  "proxy (setup_crawler c) r = proxy c r"
  by (simp_all add: setup_crawler_def search_url_def proxy_def)
















subsection \<open>The order of a run for repositories\<close>

lemma write_items_trace: "trace (snd (write_items items fp w)) = trace w"
  by (auto simp: write_items_def split: sum.splits)

text \<open>
  Claim C7, as amended. In a run for repositories whose search is answered with 200 and
  whose detail pages all yield their extras, the effects are, in this order: the search
  request, the creation of one task (the extractor, whatever the number of links), and one
  request for each link, in the order of the links on the page. The items of the links are
  appended in that same order. The result depends on nothing but the page and the answers:
  no order of completion enters.
\<close>

theorem repositories_sequential:
  assumes resp: "response = http_get e (search_url e c) (proxy c r)"
    and ok: "resp_status response = 200"
    and ty: "self_type c = ''Repositories''"
    and links: "links = find_all [(''class'', Equals ''v-align-middle''), (''href'', Present)]
                          (BeautifulSoup_anchors e (resp_text response))"
    and pages: "\<forall>a \<in> set links. \<exists>h ex. tag_getitem a ''href'' = Inr h \<and>
                  get_extras e (resp_text (http_get e (urljoin e HOST h) None)) = Inr ex"
  shows "trace (snd (snd (process e r c w))) =
           trace w @ [Request (search_url e c) (proxy c r), CreateTask]
           @ map (\<lambda>a. Request (urljoin e ''https://github.com'' (projr (tag_getitem a ''href''))) None)
               links \<and>
         self_items (fst (snd (process e r c w))) =
           self_items c @
           map (\<lambda>a. PyDict
                  [(''url'', PyStr (urljoin e ''https://github.com'' (projr (tag_getitem a ''href'')))),
                   (''extras'',
                      projr (get_extras e (resp_text (http_get e
                        (urljoin e ''https://github.com'' (projr (tag_getitem a ''href''))) None))))])
             links \<and>
         length (filter (\<lambda>ev. ev = CreateTask) (trace (snd (snd (process e r c w))))) =
           length (filter (\<lambda>ev. ev = CreateTask) (trace w)) + 1"
proof -
  let ?w1 = "w\<lparr>trace := trace w @ [Request (search_url e c) (proxy c r), CreateTask]\<rparr>"
  let ?U = "\<lambda>a. urljoin e HOST (projr (tag_getitem a ''href''))"
  let ?items = "map (\<lambda>a. PyDict [(''url'', PyStr (?U a)),
        (''extras'', projr (get_extras e (resp_text (http_get e (?U a) None))))]) links"
  let ?c2 = "(setup_crawler c)\<lparr>self_items := self_items (setup_crawler c) @ ?items\<rparr>"
  let ?w2 = "?w1\<lparr>trace := trace ?w1 @ map (\<lambda>a. Request (?U a) None) links\<rparr>"
  have co: "coro (self_type c) = Some parse_repositories"
    by (simp add: ty coro_def)
  have pr: "parse_repositories e (BeautifulSoup_anchors e (resp_text response)) (setup_crawler c, ?w1)
      = (None, ?c2, ?w2)"
    unfolding parse_repositories_def Let_def links[symmetric]
    using pages by (rule fetch_links_in_order)
  have cl: "close ?c2 = Inr (?c2\<lparr>self_session := Some \<lparr>closed = True\<rparr>\<rparr>)"
    by (simp add: close_def session_close_def)
  obtain res w3 where wr: "write_items (self_items ?c2) None ?w2 = (res, w3)"
    by (cases "write_items (self_items ?c2) None ?w2")
  then have tr: "trace w3 = trace ?w2"
    using write_items_trace[of "self_items ?c2" None ?w2] by simp
  have "process e r c w = (res, ?c2\<lparr>self_session := Some \<lparr>closed = True\<rparr>\<rparr>, w3)"
    using ok co pr cl wr by (simp add: process_def Let_def resp)
  then show ?thesis
    by (simp add: tr HOST_def)
qed

lemma two_links:
  "find_all [(''class'', Equals ''v-align-middle''), (''href'', Present)]
     [repo_link_alice, anchor_B, repo_link_bob] = [repo_link_alice, repo_link_bob]"
  by code_simp

lemma two_pages:
  "get_extras (example_env st as) ''page of alice/repo'' =
     Inr (PyDict [(''owner'', PyStr ''alice''),
                  (''language_stats'', PyDict [(''Go'', PyStr ''80''), (''Python'', PyStr ''20'')])])"
  "get_extras (example_env st as) ''page of bob/tool'' =
     Inr (PyDict [(''owner'', PyStr ''bob''),
                  (''language_stats'', PyDict [(''C'', PyStr ''100'')])])"
  by code_simp+

text \<open>
  Claim C7 as stated fails on a search page with two results: the run creates one task, not
  one for each link, and the requests and the items follow the order of the links.
\<close>

theorem repositories_one_task_counterexample:
  "length (find_all [(''class'', Equals ''v-align-middle''), (''href'', Present)]
            [repo_link_alice, anchor_B, repo_link_bob]) = 2 \<and>
   trace (snd (snd (process (example_env 200 [repo_link_alice, anchor_B, repo_link_bob]) 0
                      example_crawler (example_world True)))) =
     [Request ''https://github.com/search?q=openstack+nova+css&type=repositories''
        (Some ''https://194.126.37.94:8080''),
      CreateTask,
      Request ''https://github.com/alice/repo'' None,
      Request ''https://github.com/bob/tool'' None] \<and>
   self_items (fst (snd (process (example_env 200 [repo_link_alice, anchor_B, repo_link_bob]) 0
                           example_crawler (example_world True)))) =
     [PyDict [(''url'', PyStr ''https://github.com/alice/repo''),
              (''extras'', PyDict [(''owner'', PyStr ''alice''),
                 (''language_stats'', PyDict [(''Go'', PyStr ''80''), (''Python'', PyStr ''20'')])])],
      PyDict [(''url'', PyStr ''https://github.com/bob/tool''),
              (''extras'', PyDict [(''owner'', PyStr ''bob''),
                 (''language_stats'', PyDict [(''C'', PyStr ''100'')])])]]"
  by code_simp

text \<open>The theorem at a search page that lists the repository of bob before that of alice:
  the requests and the items come in this order, after the one task.\<close>

theorem repositories_sequential_witness:
  "trace (snd (snd (process (example_env 200 [repo_link_bob, repo_link_alice]) 1
                      example_crawler (example_world False)))) =
     [Request ''https://github.com/search?q=openstack+nova+css&type=repositories''
        (Some ''https://13.78.125.167:8080''),
      CreateTask,
      Request ''https://github.com/bob/tool'' None,
      Request ''https://github.com/alice/repo'' None] \<and>
   self_items (fst (snd (process (example_env 200 [repo_link_bob, repo_link_alice]) 1
                           example_crawler (example_world False)))) =
     [PyDict [(''url'', PyStr ''https://github.com/bob/tool''),
              (''extras'', PyDict [(''owner'', PyStr ''bob''),
                 (''language_stats'', PyDict [(''C'', PyStr ''100'')])])],
      PyDict [(''url'', PyStr ''https://github.com/alice/repo''),
              (''extras'', PyDict [(''owner'', PyStr ''alice''),
                 (''language_stats'', PyDict [(''Go'', PyStr ''80''), (''Python'', PyStr ''20'')])])]]"
proof -
  let ?e = "example_env 200 [repo_link_bob, repo_link_alice]"
  let ?response = "http_get ?e (search_url ?e example_crawler) (proxy example_crawler 1)"
  let ?links = "find_all [(''class'', Equals ''v-align-middle''), (''href'', Present)]
                  (BeautifulSoup_anchors ?e (resp_text ?response))"
  have u: "search_url ?e example_crawler
      = ''https://github.com/search?q=openstack+nova+css&type=repositories''"
    by code_simp
  have p: "proxy example_crawler 1 = Some ''https://13.78.125.167:8080''"
    by code_simp
  then have p': "proxy example_crawler (Suc 0) = Some ''https://13.78.125.167:8080''"
    by simp
  have g: "http_get ?e ''https://github.com/search?q=openstack+nova+css&type=repositories'' pr
      = \<lparr>resp_status = 200, resp_text = ''search page''\<rparr>" for pr
    by (simp add: example_env_def)
  have b: "BeautifulSoup_anchors ?e t = [repo_link_bob, repo_link_alice]" for t
    by (simp add: example_env_def)
  have f: "find_all [(''class'', Equals ''v-align-middle''), (''href'', Present)]
      [repo_link_bob, repo_link_alice] = [repo_link_bob, repo_link_alice]"
    by code_simp
  have l: "?links = [repo_link_bob, repo_link_alice]"
    unfolding u g b f ..
  have h: "tag_getitem repo_link_bob ''href'' = Inr ''/bob/tool''"
    "tag_getitem repo_link_alice ''href'' = Inr ''/alice/repo''"
    by (simp_all add: repo_link_bob_def repo_link_alice_def)
  have j: "urljoin ?e HOST ''/bob/tool'' = ''https://github.com/bob/tool''"
    "urljoin ?e HOST ''/alice/repo'' = ''https://github.com/alice/repo''"
    "urljoin ?e ''https://github.com'' ''/bob/tool'' = ''https://github.com/bob/tool''"
    "urljoin ?e ''https://github.com'' ''/alice/repo'' = ''https://github.com/alice/repo''"
    by (simp_all add: example_env_def example_urljoin_def HOST_def)
  have d: "resp_text (http_get ?e ''https://github.com/bob/tool'' None) = ''page of bob/tool''"
    "resp_text (http_get ?e ''https://github.com/alice/repo'' None) = ''page of alice/repo''"
    by (simp_all add: example_env_def)
  have ok: "resp_status ?response = 200"
    unfolding u g by simp
  have ty: "self_type example_crawler = ''Repositories''"
    by (simp add: example_crawler_def)
  have pages: "\<forall>a \<in> set ?links. \<exists>h ex. tag_getitem a ''href'' = Inr h \<and>
                  get_extras ?e (resp_text (http_get ?e (urljoin ?e HOST h) None)) = Inr ex"
    unfolding l by (simp add: h j d two_pages)
  have tr: "trace (example_world False) = []" and it: "self_items example_crawler = []"
    by (simp_all add: example_world_def example_crawler_def)
  show ?thesis
    using repositories_sequential[OF refl ok ty refl pages, of "example_world False"]
    unfolding l by (simp add: u p' h j d two_pages tr it)
qed

end
